theory Spec2Isabelle
  imports Main "HOL-Library.Word"
begin

section \<open>Python values used by both scripts\<close>

type_synonym byte = "8 word"
type_synonym bytes = "byte list"

text \<open>
  Truthiness of a value of type \<^verbatim>\<open>str | None\<close>: \<^verbatim>\<open>None\<close> and the empty string are
  falsy. \<^verbatim>\<open>a or b\<close> evaluates to \<^verbatim>\<open>a\<close> when \<^verbatim>\<open>a\<close> is truthy and to \<^verbatim>\<open>b\<close> otherwise.
\<close>

definition truthy :: "string option \<Rightarrow> bool" where
  "truthy v = (case v of None \<Rightarrow> False | Some s \<Rightarrow> s \<noteq> [])"

definition py_or :: "string option \<Rightarrow> string option \<Rightarrow> string option" where
  "py_or a b = (if truthy a then a else b)"

text \<open>\<^verbatim>\<open>str(n)\<close> for a non-negative integer, as the f-strings print it.\<close>

definition digit_char :: "nat \<Rightarrow> char" where
  "digit_char d = char_of (48 + d)"

function str_nat :: "nat \<Rightarrow> string" where
  "str_nat n = (if n < 10 then [digit_char n] else str_nat (n div 10) @ [digit_char (n mod 10)])"
  by pat_completeness auto
termination
  by (relation "measure id") auto

declare str_nat.simps [simp del]

section \<open>base64 (standard alphabet, with padding)\<close>

definition b64_alphabet :: string where
  "b64_alphabet = ''ABCDEFGHIJKLMNOPQRSTUVWXYZabcdefghijklmnopqrstuvwxyz0123456789+/''"

definition b64_char :: "nat \<Rightarrow> char" where
  "b64_char k = b64_alphabet ! k"

fun index_of :: "'a list \<Rightarrow> 'a \<Rightarrow> nat option" where
  "index_of [] x = None"
| "index_of (y # ys) x = (if x = y then Some 0 else map_option Suc (index_of ys x))"

definition b64_index :: "char \<Rightarrow> nat option" where
  "b64_index c = index_of b64_alphabet c"

text \<open>
  \<^verbatim>\<open>base64.standard_b64encode\<close>: three bytes become four characters of the alphabet; a
  last group of one or two bytes is padded with \<^verbatim>\<open>=\<close>.
\<close>

fun standard_b64encode :: "bytes \<Rightarrow> string" where
  "standard_b64encode [] = []"
| "standard_b64encode [a] =
     (let n = unat a * 16
      in [b64_char (n div 64), b64_char (n mod 64), CHR ''='', CHR ''=''])"
| "standard_b64encode [a, b] =
     (let n = (unat a * 256 + unat b) * 4
      in [b64_char (n div 4096), b64_char (n div 64 mod 64), b64_char (n mod 64), CHR ''=''])"
| "standard_b64encode (a # b # c # rest) =
     (let n = unat a * 65536 + unat b * 256 + unat c
      in [b64_char (n div 262144), b64_char (n div 4096 mod 64),
          b64_char (n div 64 mod 64), b64_char (n mod 64)] @ standard_b64encode rest)"

text \<open>
  \<^verbatim>\<open>base64.standard_b64decode\<close> on canonical input (groups of four characters, padding
  only in the last group); \<open>None\<close> stands for \<^verbatim>\<open>binascii.Error\<close>. The scripts only
  decode what \<open>standard_b64encode\<close> has produced.
\<close>

definition decode_group :: "char \<Rightarrow> char \<Rightarrow> char \<Rightarrow> char \<Rightarrow> bytes option" where
  "decode_group c0 c1 c2 c3 =
     (case (b64_index c0, b64_index c1, b64_index c2, b64_index c3) of
        (Some i0, Some i1, Some i2, Some i3) \<Rightarrow>
          (let n = i0 * 262144 + i1 * 4096 + i2 * 64 + i3
           in Some [of_nat (n div 65536), of_nat (n div 256 mod 256), of_nat (n mod 256)])
      | _ \<Rightarrow> None)"

definition decode_last :: "char \<Rightarrow> char \<Rightarrow> char \<Rightarrow> char \<Rightarrow> bytes option" where
  "decode_last c0 c1 c2 c3 =
     (if c2 = CHR ''='' then
        (case (b64_index c0, b64_index c1) of
           (Some i0, Some i1) \<Rightarrow> Some [of_nat ((i0 * 64 + i1) div 16)]
         | _ \<Rightarrow> None)
      else
        (case (b64_index c0, b64_index c1, b64_index c2) of
           (Some i0, Some i1, Some i2) \<Rightarrow>
             (let n = (i0 * 4096 + i1 * 64 + i2) div 4
              in Some [of_nat (n div 256), of_nat (n mod 256)])
         | _ \<Rightarrow> None))"

fun standard_b64decode :: "string \<Rightarrow> bytes option" where
  "standard_b64decode [] = Some []"
| "standard_b64decode (c0 # c1 # c2 # c3 # rest) =
     (if rest = [] \<and> c3 = CHR ''='' then decode_last c0 c1 c2 c3
      else case decode_group c0 c1 c2 c3 of
             None \<Rightarrow> None
           | Some g \<Rightarrow> map_option (\<lambda>r. g @ r) (standard_b64decode rest))"
| "standard_b64decode _ = None"

section \<open>Errors, observable events and the environment\<close>

text \<open>The \<^verbatim>\<open>operation.error\<close> field of a video operation is a dictionary (or \<^verbatim>\<open>None\<close>).\<close>

type_synonym error_detail = "(string \<times> string) list"

text \<open>Python exceptions that no handler of the scripts catches.\<close>

datatype py_exception =
    FileNotFoundError string
  | IndexError
  | Base64Error

text \<open>
  How an invocation ends when it does not return a path. Every constructor but
  \<open>Uncaught\<close> is one \<^verbatim>\<open>sys.exit(1)\<close> site of the scripts, named after the condition it
  reports:
  \<^item> \<open>MissingCredential\<close>: "Error: No API key provided."
  \<^item> \<open>InvalidOption\<close>: "Error: Invalid resolution ..."
  \<^item> \<open>InputNotFound\<close>: "Error: Input image not found: ..." (video script)
  \<^item> \<open>ServiceError\<close>: "Error calling Gemini API: ...", "Error starting video
    generation: ...", "Error checking operation status: ..."
  \<^item> \<open>GenerationFailed\<close>: "Error generating video: ..."
  \<^item> \<open>NoMediaProduced\<close>: "Error: No image was generated in the response."
  \<^item> \<open>PersistenceError\<close>: "Error saving video: ..."
\<close>

datatype error =
    MissingCredential
  | InvalidOption
  | InputNotFound
  | ServiceError string
  | GenerationFailed error_detail
  | NoMediaProduced
  | PersistenceError string
  | Uncaught py_exception

text \<open>An element of the \<^verbatim>\<open>contents\<close> list of the image request.\<close>

datatype content =
    Part_from_bytes bytes string
  | Prompt string

record generate_content_config =
  response_modalities :: "string list"
  image_size :: string

record blob =
  blob_data :: bytes
  blob_mime_type :: string

record part =
  inline_data :: "blob option"
  part_text :: "string option"

text \<open>A candidate stands for \<^verbatim>\<open>candidate.content.parts\<close>.\<close>

record candidate =
  content_parts :: "part list"

record response =
  candidates :: "candidate list"

record veo_image =
  image_bytes :: bytes
  image_mime_type :: string

record generate_videos_config =
  negative_prompt :: string

record video =
  video_uri :: string

record operation =
  op_done :: bool
  op_error :: "error_detail option"
  generated_videos :: "video list"

text \<open>
  What an invocation does to the outside, in the order it does it. \<open>MkdirParents d\<close> is
  \<^verbatim>\<open>d.mkdir(parents=True, exist_ok=True)\<close>. The network calls are the \<open>Call_\<close> events.
\<close>

datatype event =
    Stdout string
  | Stderr string
  | ClientInit string
  | ReadFile string
  | Call_generate_content string "content list" generate_content_config
  | Call_generate_videos string string "veo_image option" "generate_videos_config option"
  | Sleep nat
  | Call_operations_get
  | Call_files_download video
  | VideoSave video string
  | MkdirParents string
  | WriteBytes string bytes

fun is_network_call :: "event \<Rightarrow> bool" where
  "is_network_call (Call_generate_content _ _ _) = True"
| "is_network_call (Call_generate_videos _ _ _ _) = True"
| "is_network_call Call_operations_get = True"
| "is_network_call (Call_files_download _) = True"
| "is_network_call _ = False"

fun is_poll :: "event \<Rightarrow> bool" where
  "is_poll Call_operations_get = True"
| "is_poll _ = False"

fun is_sleep :: "event \<Rightarrow> bool" where
  "is_sleep (Sleep _) = True"
| "is_sleep _ = False"

fun is_extraction :: "event \<Rightarrow> bool" where
  "is_extraction (MkdirParents _) = True"
| "is_extraction (Call_files_download _) = True"
| "is_extraction (VideoSave _ _) = True"
| "is_extraction (WriteBytes _ _) = True"
| "is_extraction _ = False"

text \<open>
  Everything the scripts read from outside themselves: the process environment, the file
  system, the standard library's MIME table and path arithmetic, and the remote service.
  A failing call of the service or of the file layer carries the exception's message.
  \<open>operations_get\<close> is the sequence of answers of the service to the successive
  status queries of one invocation.
  \<^item> \<open>files\<close>: the content of the regular file at a path, \<open>None\<close> when
    \<^verbatim>\<open>Path.exists()\<close> is false.
  \<^item> \<open>guess_type\<close>: the first component of \<^verbatim>\<open>mimetypes.guess_type\<close>.
  \<^item> \<open>path_parent\<close>, \<open>path_resolve\<close>: \<^verbatim>\<open>Path(p).parent\<close> and
    \<^verbatim>\<open>str(Path(p).resolve())\<close>.
  \<^item> \<open>repr_valid_resolutions\<close>: how the set of line 82 prints (the order of a Python
    set is not fixed); \<open>str_error\<close>: how the error dictionary prints.
  \<^item> \<open>files_download\<close>, \<open>video_save\<close>: \<open>None\<close> when the call succeeds.
\<close>

record world =
  environ_GEMINI_API_KEY :: "string option"
  files :: "string \<Rightarrow> bytes option"
  guess_type :: "string \<Rightarrow> string option"
  path_parent :: "string \<Rightarrow> string"
  path_resolve :: "string \<Rightarrow> string"
  repr_valid_resolutions :: string
  str_error :: "error_detail \<Rightarrow> string"
  generate_content ::
    "string \<Rightarrow> string \<Rightarrow> content list \<Rightarrow> generate_content_config \<Rightarrow> string + response"
  generate_videos ::
    "string \<Rightarrow> string \<Rightarrow> string \<Rightarrow> veo_image option \<Rightarrow> generate_videos_config option
       \<Rightarrow> string + operation"
  operations_get :: "(string + operation) list"
  files_download :: "video \<Rightarrow> string option"
  video_save :: "video \<Rightarrow> string \<Rightarrow> string option"

type_synonym outcome = "event list \<times> (error + string)"

section \<open>Credential resolution (both scripts)\<close>

text \<open>
  Line 75 of generate\_image.py and line 50 of generate\_video.py:
  \<^verbatim>\<open>resolved_api_key = api_key or os.environ.get("GEMINI_API_KEY")\<close>.
\<close>

definition resolve_api_key :: "world \<Rightarrow> string option \<Rightarrow> string option" where
  "resolve_api_key w api_key = py_or api_key (environ_GEMINI_API_KEY w)"

text \<open>The two lines printed before the exit when the resolved key is falsy.\<close>

definition no_api_key_messages :: "event list" where
  "no_api_key_messages =
     [Stderr ''Error: No API key provided.'',
      Stderr ''Set GEMINI_API_KEY environment variable or use --api-key argument.'']"

section \<open>generate\_image.py\<close>

definition get_mime_type :: "world \<Rightarrow> string \<Rightarrow> string" where
  "get_mime_type w file_path =
     (case guess_type w file_path of
        None \<Rightarrow> ''image/png''
      | Some mime_type \<Rightarrow> mime_type)"

definition load_image_as_base64 :: "world \<Rightarrow> string \<Rightarrow> py_exception + (string \<times> string)" where
  "load_image_as_base64 w file_path =
     (case files w file_path of
        None \<Rightarrow> Inl (FileNotFoundError (''Input image not found: '' @ file_path))
      | Some image_data \<Rightarrow> Inr (standard_b64encode image_data, get_mime_type w file_path))"

definition valid_resolutions :: "string set" where
  "valid_resolutions = {''1K'', ''2K'', ''4K''}"

text \<open>
  Lines 91 to 104: the \<^verbatim>\<open>contents\<close> list. The image part is appended first, when
  \<^verbatim>\<open>input_image_path\<close> is truthy, then the prompt.
\<close>

definition build_contents ::
  "world \<Rightarrow> string \<Rightarrow> string option \<Rightarrow> py_exception + (event list \<times> content list)" where
  "build_contents w prompt input_image_path =
     (case input_image_path of
        None \<Rightarrow> Inr ([], [Prompt prompt])
      | Some p \<Rightarrow>
          if p = [] then Inr ([], [Prompt prompt])
          else
            (case load_image_as_base64 w p of
               Inl e \<Rightarrow> Inl e
             | Inr (base64_data, mime_type) \<Rightarrow>
                 (case standard_b64decode base64_data of
                    None \<Rightarrow> Inl Base64Error
                  | Some d \<Rightarrow> Inr ([ReadFile p], [Part_from_bytes d mime_type, Prompt prompt]))))"

text \<open>The first loop over the parts (lines 130 to 137): the first part with inline data.\<close>

fun first_inline_data :: "part list \<Rightarrow> blob option" where
  "first_inline_data [] = None"
| "first_inline_data (p # ps) =
     (case inline_data p of
        Some b \<Rightarrow> Some b
      | None \<Rightarrow> first_inline_data ps)"

text \<open>The second loop (lines 142 to 144): one line on stderr per part with truthy text.\<close>

fun model_responses :: "part list \<Rightarrow> event list" where
  "model_responses [] = []"
| "model_responses (p # ps) =
     (case part_text p of
        None \<Rightarrow> model_responses ps
      | Some t \<Rightarrow>
          if t \<noteq> [] then Stderr (''Model response: '' @ t) # model_responses ps
          else model_responses ps)"

text \<open>
  Lines 128 to 145. \<^verbatim>\<open>response.candidates[0]\<close> on line 130 raises IndexError when there
  is no candidate; the guard of line 141 is evaluated only after line 130 has succeeded.
\<close>

definition extract_and_save :: "world \<Rightarrow> string \<Rightarrow> response \<Rightarrow> outcome" where
  "extract_and_save w output_path resp =
     (case candidates resp of
        [] \<Rightarrow> ([], Inl (Uncaught IndexError))
      | c # _ \<Rightarrow>
          (case first_inline_data (content_parts c) of
             Some b \<Rightarrow>
               (let full_path = path_resolve w output_path
                in ([MkdirParents (path_parent w output_path),
                     WriteBytes output_path (blob_data b),
                     Stdout (''Image saved: '' @ full_path)],
                    Inr full_path))
           | None \<Rightarrow>
               (Stderr ''Error: No image was generated in the response.''
                  # (if candidates resp \<noteq> [] \<and> content_parts c \<noteq> []
                     then model_responses (content_parts c) else []),
                Inl NoMediaProduced)))"

definition generate_image ::
  "world \<Rightarrow> string \<Rightarrow> string \<Rightarrow> string \<Rightarrow> string option \<Rightarrow> string option \<Rightarrow> outcome" where
  "generate_image w prompt output_path resolution input_image_path api_key =
     (case resolve_api_key w api_key of
        None \<Rightarrow> (no_api_key_messages, Inl MissingCredential)
      | Some resolved_api_key \<Rightarrow>
          if resolved_api_key = [] then (no_api_key_messages, Inl MissingCredential)
          else if resolution \<notin> valid_resolutions then
            ([Stderr (''Error: Invalid resolution '' @ [CHR 0x27] @ resolution @ [CHR 0x27]
                       @ ''. Must be one of: '' @ repr_valid_resolutions w)],
             Inl InvalidOption)
          else
            (case build_contents w prompt input_image_path of
               Inl e \<Rightarrow> ([ClientInit resolved_api_key], Inl (Uncaught e))
             | Inr (reads, contents) \<Rightarrow>
                 (let config = \<lparr>response_modalities = [''IMAGE''], image_size = resolution\<rparr>;
                      model = ''gemini-3-pro-image-preview'';
                      sent = ClientInit resolved_api_key # reads
                               @ [Call_generate_content model contents config]
                  in case generate_content w resolved_api_key model contents config of
                       Inl e \<Rightarrow>
                         (sent @ [Stderr (''Error calling Gemini API: '' @ e)],
                          Inl (ServiceError e))
                     | Inr resp \<Rightarrow>
                         (let (evs, res) = extract_and_save w output_path resp
                          in (sent @ evs, res)))))"

section \<open>generate\_video.py\<close>

text \<open>
  Lines 59 to 64: \<^verbatim>\<open>config\<close> is \<^verbatim>\<open>None\<close> unless a truthy negative prompt was given.
\<close>

definition build_config :: "string option \<Rightarrow> generate_videos_config option" where
  "build_config negative_prompt_arg =
     (case negative_prompt_arg of
        None \<Rightarrow> None
      | Some n \<Rightarrow> if n = [] then None else Some \<lparr>negative_prompt = n\<rparr>)"

text \<open>
  Lines 66 to 82: the optional input image. The result is the exit of line 72, or the
  events and the image (\<^verbatim>\<open>None\<close> when no truthy path was given).
\<close>

definition input_mime_type :: "world \<Rightarrow> string \<Rightarrow> string" where
  "input_mime_type w input_image_path =
     (case guess_type w input_image_path of
        None \<Rightarrow> ''image/jpeg''
      | Some mime_type \<Rightarrow> if mime_type = [] then ''image/jpeg'' else mime_type)"

definition load_input_image ::
  "world \<Rightarrow> string option \<Rightarrow> (event list \<times> error) + (event list \<times> veo_image option)" where
  "load_input_image w input_image_path =
     (case input_image_path of
        None \<Rightarrow> Inr ([], None)
      | Some p \<Rightarrow>
          if p = [] then Inr ([], None)
          else
            (case files w p of
               None \<Rightarrow> Inl ([Stderr (''Error: Input image not found: '' @ p)], InputNotFound)
             | Some image_data \<Rightarrow>
                 Inr ([Stdout (''Loading input image: '' @ p), ReadFile p],
                      Some \<lparr>image_bytes = image_data,
                            image_mime_type = input_mime_type w p\<rparr>)))"

text \<open>
  Lines 110 to 119: the polling loop. \<open>script\<close> holds the answers of the service to the
  status queries still to come; \<open>None\<close> means that the operation is still pending when
  the answers run out, so the loop has not ended within them.
\<close>

fun poll_loop ::
  "(string + operation) list \<Rightarrow> operation \<Rightarrow> nat
     \<Rightarrow> (event list \<times> (error + operation)) option" where
  "poll_loop [] operation poll_count =
     (if op_done operation then Some ([], Inr operation) else None)"
| "poll_loop (r # script) operation poll_count =
     (if op_done operation then Some ([], Inr operation)
      else
        (let poll_count = poll_count + 1;
             evs = [Stdout (''  Waiting... ('' @ str_nat (poll_count * 20) @ ''s elapsed)''),
                    Sleep 20, Call_operations_get]
         in case r of
              Inl e \<Rightarrow>
                Some (evs @ [Stderr (''Error checking operation status: '' @ e)],
                      Inl (ServiceError e))
            | Inr operation' \<Rightarrow>
                (case poll_loop script operation' poll_count of
                   None \<Rightarrow> None
                 | Some (rest, res) \<Rightarrow> Some (evs @ rest, res))))"

text \<open>
  Lines 126 to 139: the download. Every exception inside the \<^verbatim>\<open>try\<close> block, the
  IndexError of \<^verbatim>\<open>generated_videos[0]\<close> included, ends in the exit of line 139.
\<close>

definition save_video :: "world \<Rightarrow> string \<Rightarrow> operation \<Rightarrow> outcome" where
  "save_video w output_path operation =
     (let mk = [MkdirParents (path_parent w output_path)];
          failed = (\<lambda>evs e. (mk @ evs @ [Stderr (''Error saving video: '' @ e)],
                              Inl (PersistenceError e)))
      in case generated_videos operation of
           [] \<Rightarrow> failed [] ''list index out of range''
         | generated_video # _ \<Rightarrow>
             (case files_download w generated_video of
                Some e \<Rightarrow> failed [Call_files_download generated_video] e
              | None \<Rightarrow>
                  (case video_save w generated_video output_path of
                     Some e \<Rightarrow>
                       failed [Call_files_download generated_video,
                               VideoSave generated_video output_path] e
                   | None \<Rightarrow>
                       (let full_path = path_resolve w output_path
                        in (mk @ [Call_files_download generated_video,
                                  VideoSave generated_video output_path,
                                  Stdout (''Video saved: '' @ full_path)],
                            Inr full_path)))))"

text \<open>Lines 121 to 139: the error check of line 122, then the download.\<close>

definition download_and_save :: "world \<Rightarrow> string \<Rightarrow> operation \<Rightarrow> outcome" where
  "download_and_save w output_path operation =
     (case op_error operation of
        None \<Rightarrow> save_video w output_path operation
      | Some detail \<Rightarrow>
          if detail \<noteq> [] then
            ([Stderr (''Error generating video: '' @ str_error w detail)],
             Inl (GenerationFailed detail))
          else save_video w output_path operation)"

text \<open>
  Lines 49 to 106: from the credential to the submission. \<open>Inl\<close> is an invocation that
  has ended; \<open>Inr\<close> carries the events so far and the operation the service returned.
\<close>

definition start_generation ::
  "world \<Rightarrow> string \<Rightarrow> string \<Rightarrow> string option \<Rightarrow> string option \<Rightarrow> string option
     \<Rightarrow> outcome + (event list \<times> operation)" where
  "start_generation w prompt model negative_prompt_arg input_image_path api_key =
     (case resolve_api_key w api_key of
        None \<Rightarrow> Inl (no_api_key_messages, Inl MissingCredential)
      | Some resolved_api_key \<Rightarrow>
          if resolved_api_key = [] then Inl (no_api_key_messages, Inl MissingCredential)
          else
            (let config = build_config negative_prompt_arg
             in case load_input_image w input_image_path of
                  Inl (evs, e) \<Rightarrow> Inl (ClientInit resolved_api_key # evs, Inl e)
                | Inr (evs, image') \<Rightarrow>
                    (let started =
                           ClientInit resolved_api_key # evs
                             @ [Stdout (''Starting video generation with model: '' @ model),
                                Stdout (''Prompt: '' @ prompt)]
                             @ (case config of
                                  None \<Rightarrow> []
                                | Some c \<Rightarrow> [Stdout (''Negative prompt: '' @ negative_prompt c)])
                             @ [Call_generate_videos model prompt image' config]
                     in case generate_videos w resolved_api_key model prompt image' config of
                          Inl e \<Rightarrow>
                            Inl (started @ [Stderr (''Error starting video generation: '' @ e)],
                                 Inl (ServiceError e))
                        | Inr operation \<Rightarrow>
                            Inr (started
                                   @ [Stdout ''Generating video (this may take a few minutes)...''],
                                 operation))))"

text \<open>
  The whole of \<^verbatim>\<open>generate_video\<close>. \<open>None\<close>: the polling loop has not ended within the
  answers of \<open>operations_get\<close>.
\<close>

definition generate_video ::
  "world \<Rightarrow> string \<Rightarrow> string \<Rightarrow> string \<Rightarrow> string option \<Rightarrow> string option \<Rightarrow> string option
     \<Rightarrow> outcome option" where
  "generate_video w prompt output_path model negative_prompt_arg input_image_path api_key =
     (case start_generation w prompt model negative_prompt_arg input_image_path api_key of
        Inl ended \<Rightarrow> Some ended
      | Inr (started, operation) \<Rightarrow>
          (case poll_loop (operations_get w) operation 0 of
             None \<Rightarrow> None
           | Some (polls, Inl e) \<Rightarrow> Some (started @ polls, Inl e)
           | Some (polls, Inr operation') \<Rightarrow>
               (let (evs, res) = download_and_save w output_path operation'
                in Some (started @ polls @ evs, res))))"

section \<open>Example environment\<close>

definition text_part :: "string \<Rightarrow> part" where
  "text_part t = \<lparr>inline_data = None, part_text = Some t\<rparr>"

definition media_part :: "bytes \<Rightarrow> string \<Rightarrow> part" where
  "media_part d m = \<lparr>inline_data = Some \<lparr>blob_data = d, blob_mime_type = m\<rparr>, part_text = None\<rparr>"

definition pending_operation :: operation where
  "pending_operation = \<lparr>op_done = False, op_error = None, generated_videos = []\<rparr>"

definition finished_operation :: operation where
  "finished_operation =
     \<lparr>op_done = True, op_error = None, generated_videos = [\<lparr>video_uri = ''files/v1''\<rparr>]\<rparr>"

definition failed_operation :: operation where
  "failed_operation =
     \<lparr>op_done = True, op_error = Some [(''message'', ''quota exceeded'')], generated_videos = []\<rparr>"

text \<open>
  A key in the environment, two files (one with an extension the MIME table does not
  know), a service that answers an image request with a text part followed by a media
  part, and a video operation that is done at the third status query.
\<close>

definition example_world :: world where
  "example_world =
     \<lparr>environ_GEMINI_API_KEY = Some ''env-key'',
      files = (\<lambda>p. if p = ''photo.jpg'' then Some [0xFF, 0xD8, 0xFF, 0xE0]
                   else if p = ''scan.xyz'' then Some [0x01, 0x02] else None),
      guess_type = (\<lambda>p. if p = ''photo.jpg'' then Some ''image/jpeg'' else None),
      path_parent = (\<lambda>p. if p = ''out/a.png'' \<or> p = ''out/v.mp4'' then ''out'' else ''.''),
      path_resolve = (\<lambda>p. ''/work/'' @ p),
      repr_valid_resolutions = ''{1K, 2K, 4K}'',
      str_error = (\<lambda>d. concat (map (\<lambda>(k, v). k @ '': '' @ v) d)),
      generate_content = (\<lambda>key model contents config.
         Inr \<lparr>candidates = [\<lparr>content_parts =
           [text_part ''Here is your image.'', media_part [0x89, 0x50, 0x4E, 0x47] ''image/png'']\<rparr>]\<rparr>),
      generate_videos = (\<lambda>key model prompt img config. Inr pending_operation),
      operations_get = [Inr pending_operation, Inr pending_operation, Inr finished_operation],
      files_download = (\<lambda>v. None),
      video_save = (\<lambda>v p. None)\<rparr>"

section \<open>base64: decoding undoes encoding\<close>

lemma b64_alphabet_distinct: "distinct b64_alphabet"
  by (simp add: b64_alphabet_def)

lemma b64_alphabet_length: "length b64_alphabet = 64"
  by (simp add: b64_alphabet_def)

lemma index_of_nth: "distinct xs \<Longrightarrow> k < length xs \<Longrightarrow> index_of xs (xs ! k) = Some k"
proof (induction xs arbitrary: k)
  case Nil
  then show ?case by simp
next
  case (Cons y ys)
  show ?case
  proof (cases k)
    case 0
    then show ?thesis by simp
  next
    case (Suc j)
    with Cons.prems have "j < length ys" "distinct ys" "ys ! j \<noteq> y"
      by auto
    with Cons.IH[of j] Suc show ?thesis by simp
  qed
qed

lemma b64_index_char: "k < 64 \<Longrightarrow> b64_index (b64_char k) = Some k"
  unfolding b64_index_def b64_char_def
  by (rule index_of_nth) (simp_all add: b64_alphabet_distinct b64_alphabet_length)

lemma b64_char_not_pad: "k < 64 \<Longrightarrow> b64_char k \<noteq> CHR ''=''"
proof -
  assume "k < 64"
  then have "b64_char k \<in> set b64_alphabet"
    unfolding b64_char_def by (simp add: b64_alphabet_length)
  moreover have "CHR ''='' \<notin> set b64_alphabet"
    by (simp add: b64_alphabet_def)
  ultimately show ?thesis by metis
qed

lemma unat_byte_less: "unat (a :: byte) < 256"
  using unsigned_less[of a, where 'a = nat] by simp

lemma recombine64:
  fixes n :: nat
  shows "(n div 262144) * 262144 + (n div 4096 mod 64) * 4096 + (n div 64 mod 64) * 64 + n mod 64 = n"
proof -
  define m1 where "m1 = n div 64"
  define m2 where "m2 = m1 div 64"
  define m3 where "m3 = m2 div 64"
  have d2: "n div 4096 = m2" unfolding m2_def m1_def by (simp add: div_mult2_eq)
  have d3: "n div 262144 = m3" unfolding m3_def m2_def m1_def by (simp add: div_mult2_eq)
  have e1: "m1 * 64 + n mod 64 = n" unfolding m1_def by (rule div_mult_mod_eq)
  have e2: "m2 * 64 + m1 mod 64 = m1" unfolding m2_def by (rule div_mult_mod_eq)
  have e3: "m3 * 64 + m2 mod 64 = m2" unfolding m3_def by (rule div_mult_mod_eq)
  define r1 where "r1 = m1 mod 64"
  define r2 where "r2 = m2 mod 64"
  define r0 where "r0 = n mod 64"
  have "m3 * 262144 + r2 * 4096 + r1 * 64 + r0 = n"
    using e1 e2 e3 unfolding r1_def[symmetric] r2_def[symmetric] r0_def[symmetric] by linarith
  then show ?thesis
    unfolding d2 d3 r2_def r1_def r0_def m1_def[symmetric] .
qed

lemma split3:
  fixes x y z :: nat
  assumes "y < 256" "z < 256"
  shows "(x * 65536 + y * 256 + z) div 65536 = x"
    and "(x * 65536 + y * 256 + z) div 256 mod 256 = y"
    and "(x * 65536 + y * 256 + z) mod 256 = z"
proof -
  have small: "y * 256 + z < 65536" using assms by linarith
  have eq1: "x * 65536 + y * 256 + z = x * 65536 + (y * 256 + z)" by simp
  have "(x * 65536 + (y * 256 + z)) div 65536 = x + (y * 256 + z) div 65536"
    by (rule div_mult_self3) simp
  then show "(x * 65536 + y * 256 + z) div 65536 = x"
    unfolding eq1 using small by simp
  have eq2: "x * 65536 + y * 256 + z = (x * 256 + y) * 256 + z" by simp
  have "((x * 256 + y) * 256 + z) div 256 = (x * 256 + y) + z div 256"
    by (rule div_mult_self3) simp
  then have d: "(x * 65536 + y * 256 + z) div 256 = x * 256 + y"
    unfolding eq2 using assms by simp
  have "(x * 256 + y) mod 256 = y mod 256" by (rule mod_mult_self3)
  then show "(x * 65536 + y * 256 + z) div 256 mod 256 = y"
    unfolding d using assms by simp
  have "((x * 256 + y) * 256 + z) mod 256 = z mod 256" by (rule mod_mult_self3)
  then show "(x * 65536 + y * 256 + z) mod 256 = z"
    unfolding eq2 using assms by simp
qed

lemma decode_group_encode:
  fixes a b c :: byte
  assumes n: "n = unat a * 65536 + unat b * 256 + unat c"
  shows "decode_group (b64_char (n div 262144)) (b64_char (n div 4096 mod 64))
           (b64_char (n div 64 mod 64)) (b64_char (n mod 64)) = Some [a, b, c]"
proof -
  have la: "unat a < 256" and lb: "unat b < 256" and lc: "unat c < 256"
    by (rule unat_byte_less)+
  have "n < 256 * 65536" using la lb lc unfolding n by linarith
  then have n0: "n div 262144 < 64" by (simp add: less_mult_imp_div_less)
  have a': "n div 65536 = unat a" and b': "n div 256 mod 256 = unat b"
    and c': "n mod 256 = unat c"
    unfolding n using split3[OF lb lc, of "unat a"] by blast+
  show ?thesis
    unfolding decode_group_def
    by (simp add: b64_index_char n0 recombine64 a' b' c' Let_def)
qed

lemma decode_last_one:
  fixes a :: byte
  assumes n: "n = unat a * 16"
  shows "decode_last (b64_char (n div 64)) (b64_char (n mod 64)) CHR ''='' CHR ''='' = Some [a]"
proof -
  have la: "unat a < 256" by (rule unat_byte_less)
  have "n < 64 * 64" using la unfolding n by linarith
  then have n0: "n div 64 < 64" by (simp add: less_mult_imp_div_less)
  have rec: "n div 64 * 64 + n mod 64 = n" by (rule div_mult_mod_eq)
  have a': "n div 16 = unat a" unfolding n by simp
  show ?thesis
    unfolding decode_last_def by (simp add: b64_index_char n0 rec a')
qed

lemma decode_last_two:
  fixes a b :: byte
  assumes n: "n = (unat a * 256 + unat b) * 4"
  shows "decode_last (b64_char (n div 4096)) (b64_char (n div 64 mod 64)) (b64_char (n mod 64))
           CHR ''='' = Some [a, b]"
proof -
  have la: "unat a < 256" and lb: "unat b < 256" by (rule unat_byte_less)+
  have "unat a * 256 + unat b < 65536" using la lb by linarith
  then have "n < 64 * 4096" unfolding n by simp
  then have n0: "n div 4096 < 64" by (simp add: less_mult_imp_div_less)
  have d2: "n div 4096 = n div 64 div 64" by (simp add: div_mult2_eq)
  have e1: "n div 64 * 64 + n mod 64 = n" by (rule div_mult_mod_eq)
  have e2: "n div 64 div 64 * 64 + n div 64 mod 64 = n div 64" by (rule div_mult_mod_eq)
  have rec: "n div 4096 * 4096 + n div 64 mod 64 * 64 + n mod 64 = n"
    unfolding d2 using e1 e2 by linarith
  have n4: "n div 4 = unat a * 256 + unat b" unfolding n by simp
  have "(unat a * 256 + unat b) div 256 = unat a + unat b div 256"
    by (rule div_mult_self3) simp
  then have a': "(unat a * 256 + unat b) div 256 = unat a" using lb by simp
  have "(unat a * 256 + unat b) mod 256 = unat b mod 256" by (rule mod_mult_self3)
  then have b': "(unat a * 256 + unat b) mod 256 = unat b" using lb by simp
  have mb: "unat b mod 256 = unat b" using lb by simp
  have pad: "b64_char (n mod 64) \<noteq> CHR ''=''" by (rule b64_char_not_pad) simp
  show ?thesis
    unfolding decode_last_def
    by (simp add: b64_index_char pad n0 rec n4 a' b' mb Let_def)
qed

lemma b64_roundtrip: "standard_b64decode (standard_b64encode xs) = Some xs"
proof (induction xs rule: standard_b64encode.induct)
  case 1
  then show ?case by simp
next
  case (2 a)
  define n where "n = unat a * 16"
  have enc: "standard_b64encode [a] = [b64_char (n div 64), b64_char (n mod 64), CHR ''='', CHR ''='']"
    by (simp add: Let_def n_def)
  show ?case
    unfolding enc using decode_last_one[OF n_def] by simp
next
  case (3 a b)
  define n where "n = (unat a * 256 + unat b) * 4"
  have enc: "standard_b64encode [a, b] =
      [b64_char (n div 4096), b64_char (n div 64 mod 64), b64_char (n mod 64), CHR ''='']"
    by (simp add: Let_def n_def)
  show ?case
    unfolding enc using decode_last_two[OF n_def] by simp
next
  case (4 a b c rest)
  define n where "n = unat a * 65536 + unat b * 256 + unat c"
  have enc: "standard_b64encode (a # b # c # rest) =
      b64_char (n div 262144) # b64_char (n div 4096 mod 64) # b64_char (n div 64 mod 64)
        # b64_char (n mod 64) # standard_b64encode rest"
    by (simp add: Let_def n_def)
  have pad: "b64_char (n mod 64) \<noteq> CHR ''=''" by (rule b64_char_not_pad) simp
  show ?case
    unfolding enc using decode_group_encode[OF n_def] pad "4.IH" by simp
qed

section \<open>The stages of generate\_image\<close>

lemma build_contents_absent:
  "build_contents w prompt None = Inr ([], [Prompt prompt])"
  "build_contents w prompt (Some []) = Inr ([], [Prompt prompt])"
  by (simp_all add: build_contents_def)

lemma build_contents_present:
  "p \<noteq> [] \<Longrightarrow> files w p = Some d \<Longrightarrow>
     build_contents w prompt (Some p)
       = Inr ([ReadFile p], [Part_from_bytes d (get_mime_type w p), Prompt prompt])"
  by (simp add: build_contents_def load_image_as_base64_def b64_roundtrip)

lemma build_contents_missing:
  "p \<noteq> [] \<Longrightarrow> files w p = None \<Longrightarrow>
     build_contents w prompt (Some p)
       = Inl (FileNotFoundError (''Input image not found: '' @ p))"
  by (simp add: build_contents_def load_image_as_base64_def)

lemma build_contents_cases:
  "build_contents w prompt inp =
     (case inp of
        None \<Rightarrow> Inr ([], [Prompt prompt])
      | Some p \<Rightarrow>
          if p = [] then Inr ([], [Prompt prompt])
          else (case files w p of
                  None \<Rightarrow> Inl (FileNotFoundError (''Input image not found: '' @ p))
                | Some d \<Rightarrow>
                    Inr ([ReadFile p], [Part_from_bytes d (get_mime_type w p), Prompt prompt])))"
  by (simp add: build_contents_def load_image_as_base64_def b64_roundtrip
      split: option.splits)

lemma model_responses_quiet:
  "filter is_network_call (model_responses ps) = []"
  "filter is_extraction (model_responses ps) = []"
  by (induction ps) (simp_all split: option.splits)

lemma extract_and_save_no_network:
  "filter is_network_call (fst (extract_and_save w out resp)) = []"
  by (simp add: extract_and_save_def model_responses_quiet Let_def
      split: list.splits option.splits)

lemma generate_image_cases:
  "generate_image w prompt out res inp key =
     (case resolve_api_key w key of
        None \<Rightarrow> (no_api_key_messages, Inl MissingCredential)
      | Some k \<Rightarrow>
          if k = [] then (no_api_key_messages, Inl MissingCredential)
          else if res \<notin> valid_resolutions then
            ([Stderr (''Error: Invalid resolution '' @ [CHR 0x27] @ res @ [CHR 0x27]
                       @ ''. Must be one of: '' @ repr_valid_resolutions w)],
             Inl InvalidOption)
          else
            (case build_contents w prompt inp of
               Inl e \<Rightarrow> ([ClientInit k], Inl (Uncaught e))
             | Inr (reads, contents) \<Rightarrow>
                 (let config = \<lparr>response_modalities = [''IMAGE''], image_size = res\<rparr>;
                      model = ''gemini-3-pro-image-preview'';
                      sent = ClientInit k # reads @ [Call_generate_content model contents config]
                  in case generate_content w k model contents config of
                       Inl e \<Rightarrow>
                         (sent @ [Stderr (''Error calling Gemini API: '' @ e)],
                          Inl (ServiceError e))
                     | Inr resp \<Rightarrow>
                         (sent @ fst (extract_and_save w out resp),
                          snd (extract_and_save w out resp)))))"
  by (simp add: generate_image_def Let_def split: option.splits sum.splits prod.splits)

section \<open>The content sequence of the image request\<close>

text \<open>
  C1. When the credential resolves and the resolution is accepted, the image pipeline
  makes exactly one network call, the generation request. Without a reference image
  (no path, or the empty path, which the script treats as no path) its content sequence
  is the prompt alone. With the path of an existing reference image it has exactly two
  elements: the image part, carrying the bytes of the file and its MIME type, first, and
  the prompt second.
\<close>

theorem contents_sequence:
  assumes "resolve_api_key w api_key = Some k" and "k \<noteq> []"
    and "resolution \<in> valid_resolutions"
  shows "(input_image_path = None \<or> input_image_path = Some [] \<longrightarrow>
            filter is_network_call
              (fst (generate_image w prompt output_path resolution input_image_path api_key))
            = [Call_generate_content ''gemini-3-pro-image-preview'' [Prompt prompt]
                 \<lparr>response_modalities = [''IMAGE''], image_size = resolution\<rparr>])
       \<and> (\<forall>p d. input_image_path = Some p \<and> p \<noteq> [] \<and> files w p = Some d \<longrightarrow>
            filter is_network_call
              (fst (generate_image w prompt output_path resolution input_image_path api_key))
            = [Call_generate_content ''gemini-3-pro-image-preview''
                 [Part_from_bytes d (get_mime_type w p), Prompt prompt]
                 \<lparr>response_modalities = [''IMAGE''], image_size = resolution\<rparr>])"
  using assms
  by (auto simp: generate_image_cases build_contents_cases extract_and_save_no_network Let_def
      split: sum.splits)

theorem contents_sequence_witness:
  "filter is_network_call
     (fst (generate_image example_world ''a cat'' ''out/a.png'' ''1K'' (Some ''photo.jpg'') None))
   = [Call_generate_content ''gemini-3-pro-image-preview''
        [Part_from_bytes [0xFF, 0xD8, 0xFF, 0xE0] ''image/jpeg'', Prompt ''a cat'']
        \<lparr>response_modalities = [''IMAGE''], image_size = ''1K''\<rparr>]
   \<and> filter is_network_call
     (fst (generate_image example_world ''a cat'' ''out/a.png'' ''1K'' None None))
   = [Call_generate_content ''gemini-3-pro-image-preview'' [Prompt ''a cat'']
        \<lparr>response_modalities = [''IMAGE''], image_size = ''1K''\<rparr>]"
proof -
  have key: "resolve_api_key example_world None = Some ''env-key''"
    by (simp add: resolve_api_key_def py_or_def truthy_def example_world_def)
  have ne: "''env-key'' \<noteq> []" by simp
  have res: "''1K'' \<in> valid_resolutions" by (simp add: valid_resolutions_def)
  have fl: "files example_world ''photo.jpg'' = Some [0xFF, 0xD8, 0xFF, 0xE0]"
    by (simp add: example_world_def)
  have mime: "get_mime_type example_world ''photo.jpg'' = ''image/jpeg''"
    by (simp add: get_mime_type_def example_world_def)
  from contents_sequence[OF key ne res, of "Some ''photo.jpg''" "''a cat''" "''out/a.png''"]
       contents_sequence[OF key ne res, of None "''a cat''" "''out/a.png''"]
       fl mime
  show ?thesis by simp
qed

section \<open>The stages of generate\_video\<close>

lemma load_input_image_events:
  assumes "load_input_image w inp = Inr (evs, img)"
  shows "filter is_poll evs = []" and "filter is_sleep evs = []"
    and "filter is_extraction evs = []" and "filter is_network_call evs = []"
    and "ClientInit x \<notin> set evs"
  using assms
  by (auto simp: load_input_image_def split: option.splits if_splits)

lemma load_input_image_failed:
  assumes "load_input_image w inp = Inl (evs, e)"
  shows "filter is_network_call evs = []" and "ClientInit x \<notin> set evs"
  using assms
  by (auto simp: load_input_image_def split: option.splits if_splits)

lemma start_generation_started:
  assumes "start_generation w prompt model neg inp key = Inr (started, operation)"
  shows "filter is_poll started = []" and "filter is_sleep started = []"
    and "filter is_extraction started = []"
  using assms
  by (auto simp: start_generation_def Let_def load_input_image_events
      split: option.splits if_splits sum.splits prod.splits)

lemma start_generation_client:
  assumes "start_generation w prompt model neg inp key = Inr (started, operation)"
    and "ClientInit x \<in> set started"
  shows "resolve_api_key w key = Some x"
  using assms
  by (auto simp: start_generation_def Let_def load_input_image_events
      split: option.splits if_splits sum.splits prod.splits)

lemma start_generation_ended_client:
  assumes "start_generation w prompt model neg inp key = Inl (tr, r)"
    and "ClientInit x \<in> set tr"
  shows "resolve_api_key w key = Some x"
  using assms
  by (auto simp: start_generation_def Let_def load_input_image_events
        load_input_image_failed no_api_key_messages_def
      split: option.splits if_splits sum.splits prod.splits)

lemma poll_loop_done:
  "op_done operation \<Longrightarrow> poll_loop script operation c = Some ([], Inr operation)"
  by (cases script) simp_all

lemma poll_loop_pending:
  "\<not> op_done operation \<Longrightarrow>
     poll_loop (r # script) operation c =
       (case r of
          Inl e \<Rightarrow>
            Some ([Stdout (''  Waiting... ('' @ str_nat ((c + 1) * 20) @ ''s elapsed)''),
                   Sleep 20, Call_operations_get,
                   Stderr (''Error checking operation status: '' @ e)],
                  Inl (ServiceError e))
        | Inr operation' \<Rightarrow>
            (case poll_loop script operation' (c + 1) of
               None \<Rightarrow> None
             | Some (rest, res) \<Rightarrow>
                 Some (Stdout (''  Waiting... ('' @ str_nat ((c + 1) * 20) @ ''s elapsed)'')
                         # Sleep 20 # Call_operations_get # rest, res)))"
  by (simp add: Let_def split: sum.splits option.splits)

lemma poll_loop_events:
  "poll_loop script operation c = Some (evs, res) \<Longrightarrow>
     filter is_extraction evs = [] \<and> ClientInit x \<notin> set evs"
proof (induction script arbitrary: operation c evs res)
  case Nil
  then show ?case by (simp split: if_splits)
next
  case (Cons r script)
  show ?case
  proof (cases "op_done operation")
    case True
    with Cons.prems show ?thesis by simp
  next
    case False
    show ?thesis
    proof (cases r)
      case (Inl e)
      with False Cons.prems show ?thesis by (auto simp: poll_loop_pending)
    next
      case (Inr operation')
      with False Cons.prems obtain rest where
        rest: "poll_loop script operation' (c + 1) = Some (rest, res)"
        and evs: "evs = Stdout (''  Waiting... ('' @ str_nat ((c + 1) * 20) @ ''s elapsed)'')
                         # Sleep 20 # Call_operations_get # rest"
        by (auto simp: poll_loop_pending split: option.splits)
      from Cons.IH[OF rest] evs show ?thesis by simp
    qed
  qed
qed

text \<open>
  A run of pending answers is polled through one by one: each costs one message, one
  sleep of 20 seconds and one status query.
\<close>

lemma poll_loop_through_pending:
  assumes "\<not> op_done operation" and "\<forall>p \<in> set ps. \<not> op_done p"
  shows "\<exists>evs. (\<forall>script res rest.
             poll_loop script (last (operation # ps)) (c + length ps) = Some (rest, res)
               \<longrightarrow> poll_loop (map Inr ps @ script) operation c = Some (evs @ rest, res))
           \<and> filter is_sleep evs = replicate (length ps) (Sleep 20)
           \<and> length (filter is_poll evs) = length ps
           \<and> filter is_extraction evs = []"
  using assms
proof (induction ps arbitrary: operation c)
  case Nil
  show ?case by (rule exI[of _ "[]"]) simp
next
  case (Cons p ps)
  from Cons.prems have p: "\<not> op_done p" and ps: "\<forall>q \<in> set ps. \<not> op_done q" by auto
  from Cons.IH[OF p ps, of "c + 1"] obtain evs where
    run: "\<And>script res rest.
            poll_loop script (last (p # ps)) (c + 1 + length ps) = Some (rest, res)
              \<Longrightarrow> poll_loop (map Inr ps @ script) p (c + 1) = Some (evs @ rest, res)"
    and sl: "filter is_sleep evs = replicate (length ps) (Sleep 20)"
    and po: "length (filter is_poll evs) = length ps"
    and ex: "filter is_extraction evs = []"
    by blast
  let ?head = "[Stdout (''  Waiting... ('' @ str_nat ((c + 1) * 20) @ ''s elapsed)''),
                Sleep 20, Call_operations_get]"
  show ?case
  proof (rule exI[of _ "?head @ evs"], intro conjI allI impI)
    fix script res rest
    assume "poll_loop script (last (operation # p # ps)) (c + length (p # ps)) = Some (rest, res)"
    then have "poll_loop script (last (p # ps)) (c + 1 + length ps) = Some (rest, res)"
      by simp
    from run[OF this] Cons.prems(1)
    show "poll_loop (map Inr (p # ps) @ script) operation c = Some ((?head @ evs) @ rest, res)"
      by (simp add: poll_loop_pending)
  qed (simp_all add: sl po ex)
qed

lemma poll_loop_until_done:
  assumes "\<not> op_done operation" and "\<forall>p \<in> set ps. \<not> op_done p" and "op_done d"
  shows "\<exists>evs. poll_loop (map Inr ps @ Inr d # rest) operation c = Some (evs, Inr d)
           \<and> filter is_sleep evs = replicate (Suc (length ps)) (Sleep 20)
           \<and> length (filter is_poll evs) = Suc (length ps)
           \<and> filter is_extraction evs = []"
proof -
  from poll_loop_through_pending[OF assms(1,2), of c] obtain evs where
    run: "\<And>script res tl.
            poll_loop script (last (operation # ps)) (c + length ps) = Some (tl, res)
              \<Longrightarrow> poll_loop (map Inr ps @ script) operation c = Some (evs @ tl, res)"
    and sl: "filter is_sleep evs = replicate (length ps) (Sleep 20)"
    and po: "length (filter is_poll evs) = length ps"
    and ex: "filter is_extraction evs = []"
    by blast
  have "last (operation # ps) \<in> set (operation # ps)" by (rule last_in_set) simp
  with assms(1,2) have pending: "\<not> op_done (last (operation # ps))" by auto
  let ?tl = "[Stdout (''  Waiting... ('' @ str_nat ((c + length ps + 1) * 20) @ ''s elapsed)''),
              Sleep 20, Call_operations_get]"
  have "poll_loop (Inr d # rest) (last (operation # ps)) (c + length ps) = Some (?tl, Inr d)"
    using pending assms(3) by (simp add: poll_loop_pending poll_loop_done)
  from run[OF this] have "poll_loop (map Inr ps @ Inr d # rest) operation c = Some (evs @ ?tl, Inr d)" .
  moreover have "filter is_sleep (evs @ ?tl) = replicate (Suc (length ps)) (Sleep 20)"
    by (simp add: sl replicate_append_same)
  moreover have "length (filter is_poll (evs @ ?tl)) = Suc (length ps)"
    by (simp add: po)
  moreover have "filter is_extraction (evs @ ?tl) = []"
    by (simp add: ex)
  ultimately show ?thesis by blast
qed

lemma poll_loop_until_failure:
  assumes "\<not> op_done operation" and "\<forall>p \<in> set ps. \<not> op_done p"
  shows "\<exists>evs. poll_loop (map Inr ps @ Inl e # rest) operation c
               = Some (evs @ [Stderr (''Error checking operation status: '' @ e)],
                       Inl (ServiceError e))
           \<and> filter is_sleep evs = replicate (Suc (length ps)) (Sleep 20)
           \<and> length (filter is_poll evs) = Suc (length ps)
           \<and> filter is_extraction evs = []"
proof -
  from poll_loop_through_pending[OF assms(1,2), of c] obtain evs where
    run: "\<And>script res tl.
            poll_loop script (last (operation # ps)) (c + length ps) = Some (tl, res)
              \<Longrightarrow> poll_loop (map Inr ps @ script) operation c = Some (evs @ tl, res)"
    and sl: "filter is_sleep evs = replicate (length ps) (Sleep 20)"
    and po: "length (filter is_poll evs) = length ps"
    and ex: "filter is_extraction evs = []"
    by blast
  have "last (operation # ps) \<in> set (operation # ps)" by (rule last_in_set) simp
  with assms(1,2) have pending: "\<not> op_done (last (operation # ps))" by auto
  let ?tl = "[Stdout (''  Waiting... ('' @ str_nat ((c + length ps + 1) * 20) @ ''s elapsed)''),
              Sleep 20, Call_operations_get]"
  have "poll_loop (Inl e # rest) (last (operation # ps)) (c + length ps)
          = Some (?tl @ [Stderr (''Error checking operation status: '' @ e)],
                  Inl (ServiceError e))"
    using pending by (simp add: poll_loop_pending)
  from run[OF this]
  have "poll_loop (map Inr ps @ Inl e # rest) operation c
          = Some ((evs @ ?tl) @ [Stderr (''Error checking operation status: '' @ e)],
                  Inl (ServiceError e))"
    by simp
  moreover have "filter is_sleep (evs @ ?tl) = replicate (Suc (length ps)) (Sleep 20)"
    by (simp add: sl replicate_append_same)
  moreover have "length (filter is_poll (evs @ ?tl)) = Suc (length ps)"
    by (simp add: po)
  moreover have "filter is_extraction (evs @ ?tl) = []"
    by (simp add: ex)
  ultimately show ?thesis by blast
qed

lemma generate_video_after_start:
  assumes "start_generation w prompt model neg inp key = Inr (started, operation)"
  shows "generate_video w prompt out model neg inp key =
           (case poll_loop (operations_get w) operation 0 of
              None \<Rightarrow> None
            | Some (polls, Inl e) \<Rightarrow> Some (started @ polls, Inl e)
            | Some (polls, Inr operation') \<Rightarrow>
                Some (started @ polls @ fst (download_and_save w out operation'),
                      snd (download_and_save w out operation')))"
  using assms
  by (simp add: generate_video_def split: option.splits sum.splits prod.splits)

lemma download_and_save_no_error:
  "op_error operation = None \<or> op_error operation = Some [] \<Longrightarrow>
     download_and_save w out operation = save_video w out operation"
  by (auto simp: download_and_save_def)

lemma download_and_save_error:
  "op_error operation = Some detail \<Longrightarrow> detail \<noteq> [] \<Longrightarrow>
     download_and_save w out operation =
       ([Stderr (''Error generating video: '' @ str_error w detail)],
        Inl (GenerationFailed detail))"
  by (simp add: download_and_save_def)

lemma save_video_starts:
  "\<exists>post. fst (save_video w out operation) = MkdirParents (path_parent w out) # post"
  by (simp add: save_video_def Let_def split: list.splits option.splits)

lemma example_start:
  "start_generation (example_world\<lparr>operations_get := script\<rparr>) ''a cat''
     ''veo-3.0-generate-001'' None None None
   = Inr ([ClientInit ''env-key'',
           Stdout ''Starting video generation with model: veo-3.0-generate-001'',
           Stdout ''Prompt: a cat'',
           Call_generate_videos ''veo-3.0-generate-001'' ''a cat'' None None,
           Stdout ''Generating video (this may take a few minutes)...''],
          pending_operation)"
  by (simp add: start_generation_def example_world_def resolve_api_key_def py_or_def truthy_def
      load_input_image_def build_config_def)

section \<open>The completion waiter\<close>

text \<open>
  C3 (as the code has it). The operation returned by the submission is pending and the
  service answers the status queries with pending, pending, done without error. Then
  the waiter makes exactly 3 status queries and exactly 3 delays, each of 20 seconds
  (one before every query, so as many delays as queries, not 2), nothing of the
  extraction happens before the loop ends, and the invocation goes on with the
  extraction, which starts by creating the parent directory of the output path.
\<close>

theorem waiter_three_polls_three_delays:
  assumes "start_generation w prompt model neg inp key = Inr (started, operation)"
    and "\<not> op_done operation"
    and "operations_get w = [Inr p1, Inr p2, Inr d]"
    and "\<not> op_done p1" and "\<not> op_done p2" and "op_done d"
    and "op_error d = None \<or> op_error d = Some []"
  shows "\<exists>pre post.
           generate_video w prompt out model neg inp key
             = Some (pre @ MkdirParents (path_parent w out) # post, snd (save_video w out d))
         \<and> fst (save_video w out d) = MkdirParents (path_parent w out) # post
         \<and> length (filter is_poll pre) = 3
         \<and> filter is_sleep pre = [Sleep 20, Sleep 20, Sleep 20]
         \<and> filter is_extraction pre = []"
proof -
  have "\<forall>p \<in> set [p1, p2]. \<not> op_done p" using assms(4,5) by simp
  from poll_loop_until_done[OF assms(2) this assms(6), of "[]" 0] obtain evs where
    run: "poll_loop [Inr p1, Inr p2, Inr d] operation 0 = Some (evs, Inr d)"
    and sl: "filter is_sleep evs = [Sleep 20, Sleep 20, Sleep 20]"
    and po: "length (filter is_poll evs) = 3"
    and ex: "filter is_extraction evs = []"
    by (auto simp: numeral_3_eq_3)
  obtain post where post: "fst (save_video w out d) = MkdirParents (path_parent w out) # post"
    using save_video_starts by blast
  have "generate_video w prompt out model neg inp key
          = Some ((started @ evs) @ MkdirParents (path_parent w out) # post,
                  snd (save_video w out d))"
    using generate_video_after_start[OF assms(1), of out] run assms(3)
      download_and_save_no_error[OF assms(7), of w out] post
    by simp
  moreover have "length (filter is_poll (started @ evs)) = 3"
    using start_generation_started(1)[OF assms(1)] po by simp
  moreover have "filter is_sleep (started @ evs) = [Sleep 20, Sleep 20, Sleep 20]"
    using start_generation_started(2)[OF assms(1)] sl by simp
  moreover have "filter is_extraction (started @ evs) = []"
    using start_generation_started(3)[OF assms(1)] ex by simp
  ultimately show ?thesis using post by blast
qed

text \<open>
  The same run in the example environment, counted: three status queries, three delays.
\<close>

theorem waiter_two_delays_counterexample:
  "\<exists>tr r. generate_video example_world ''a cat'' ''out/v.mp4'' ''veo-3.0-generate-001''
             None None None = Some (tr, r)
         \<and> operations_get example_world
             = [Inr pending_operation, Inr pending_operation, Inr finished_operation]
         \<and> length (filter is_poll tr) = 3
         \<and> length (filter is_sleep tr) = 3
         \<and> length (filter is_sleep tr) \<noteq> 2"
  by (simp add: generate_video_def start_generation_def example_world_def resolve_api_key_def
      py_or_def truthy_def load_input_image_def build_config_def pending_operation_def
      finished_operation_def download_and_save_def save_video_def Let_def)

theorem waiter_three_polls_three_delays_witness:
  "\<exists>pre post.
      generate_video example_world ''a cat'' ''out/v.mp4'' ''veo-3.0-generate-001'' None None None
        = Some (pre @ MkdirParents ''out'' # post, Inr ''/work/out/v.mp4'')
    \<and> length (filter is_poll pre) = 3
    \<and> filter is_sleep pre = [Sleep 20, Sleep 20, Sleep 20]
    \<and> filter is_extraction pre = []"
proof -
  have start: "start_generation example_world ''a cat'' ''veo-3.0-generate-001'' None None None
      = Inr ([ClientInit ''env-key'',
           Stdout ''Starting video generation with model: veo-3.0-generate-001'',
           Stdout ''Prompt: a cat'',
           Call_generate_videos ''veo-3.0-generate-001'' ''a cat'' None None,
           Stdout ''Generating video (this may take a few minutes)...''],
          pending_operation)"
    using example_start[of "operations_get example_world"] by simp
  have pend: "\<not> op_done pending_operation" by (simp add: pending_operation_def)
  have script: "operations_get example_world
      = [Inr pending_operation, Inr pending_operation, Inr finished_operation]"
    by (simp add: example_world_def)
  have fin: "op_done finished_operation" by (simp add: finished_operation_def)
  have noerr: "op_error finished_operation = None \<or> op_error finished_operation = Some []"
    by (simp add: finished_operation_def)
  have saved: "snd (save_video example_world ''out/v.mp4'' finished_operation)
      = Inr ''/work/out/v.mp4''"
    by (simp add: save_video_def finished_operation_def example_world_def Let_def)
  have parent: "path_parent example_world ''out/v.mp4'' = ''out''"
    by (simp add: example_world_def)
  from waiter_three_polls_three_delays[OF start pend script pend pend fin noerr, of "''out/v.mp4''"]
  show ?thesis unfolding saved parent by blast
qed

text \<open>
  C4. The operation returned by the submission is pending and the service answers the
  status queries with pending, then done with a non-empty error (whatever it would answer
  afterwards). Then the invocation ends with GenerationFailed carrying that error detail,
  after exactly 2 status queries, and no step of the extraction (directory creation,
  download, save) is performed.
\<close>

theorem waiter_generation_failed:
  assumes "start_generation w prompt model neg inp key = Inr (started, operation)"
    and "\<not> op_done operation"
    and "operations_get w = Inr p1 # Inr d # rest"
    and "\<not> op_done p1" and "op_done d"
    and "op_error d = Some detail" and "detail \<noteq> []"
  shows "\<exists>tr. generate_video w prompt out model neg inp key
                = Some (tr, Inl (GenerationFailed detail))
         \<and> length (filter is_poll tr) = 2
         \<and> filter is_extraction tr = []"
proof -
  have "\<forall>p \<in> set [p1]. \<not> op_done p" using assms(4) by simp
  from poll_loop_until_done[OF assms(2) this assms(5), of rest 0] obtain evs where
    run: "poll_loop (Inr p1 # Inr d # rest) operation 0 = Some (evs, Inr d)"
    and po: "length (filter is_poll evs) = 2"
    and ex: "filter is_extraction evs = []"
    by auto
  let ?tr = "started @ evs @ [Stderr (''Error generating video: '' @ str_error w detail)]"
  have "generate_video w prompt out model neg inp key = Some (?tr, Inl (GenerationFailed detail))"
    using generate_video_after_start[OF assms(1), of out] run assms(3)
      download_and_save_error[OF assms(6,7), of w out]
    by simp
  moreover have "length (filter is_poll ?tr) = 2"
    using start_generation_started(1)[OF assms(1)] po by simp
  moreover have "filter is_extraction ?tr = []"
    using start_generation_started(3)[OF assms(1)] ex by simp
  ultimately show ?thesis by blast
qed

theorem waiter_generation_failed_witness:
  "\<exists>tr. generate_video
           (example_world\<lparr>operations_get := [Inr pending_operation, Inr failed_operation]\<rparr>)
           ''a cat'' ''out/v.mp4'' ''veo-3.0-generate-001'' None None None
         = Some (tr, Inl (GenerationFailed [(''message'', ''quota exceeded'')]))
       \<and> length (filter is_poll tr) = 2
       \<and> filter is_extraction tr = []"
proof -
  let ?w = "example_world\<lparr>operations_get := [Inr pending_operation, Inr failed_operation]\<rparr>"
  have pend: "\<not> op_done pending_operation" by (simp add: pending_operation_def)
  have script: "operations_get ?w = Inr pending_operation # Inr failed_operation # []"
    by simp
  have fin: "op_done failed_operation" by (simp add: failed_operation_def)
  have err: "op_error failed_operation = Some [(''message'', ''quota exceeded'')]"
    by (simp add: failed_operation_def)
  have ne: "[(''message'', ''quota exceeded'')] \<noteq> []" by simp
  from waiter_generation_failed[OF example_start pend script pend fin err ne, of "''out/v.mp4''"]
  show ?thesis .
qed

text \<open>
  C7. At whichever iteration the status query raises (after any number of pending
  answers), the invocation ends at once with ServiceError carrying the exception's
  message: the failing query is the last one (the number of queries is the number of
  pending answers plus one, whatever the service would have answered afterwards), the
  last event is the error message, and no step of the extraction is performed.
\<close>

theorem poll_failure_is_fatal:
  assumes "start_generation w prompt model neg inp key = Inr (started, operation)"
    and "\<not> op_done operation"
    and "operations_get w = map Inr ps @ Inl e # rest"
    and "\<forall>p \<in> set ps. \<not> op_done p"
  shows "\<exists>tr. generate_video w prompt out model neg inp key
                = Some (tr @ [Stderr (''Error checking operation status: '' @ e)],
                        Inl (ServiceError e))
         \<and> length (filter is_poll tr) = Suc (length ps)
         \<and> filter is_extraction tr = []"
proof -
  from poll_loop_until_failure[OF assms(2,4), of e rest 0] obtain evs where
    run: "poll_loop (map Inr ps @ Inl e # rest) operation 0
            = Some (evs @ [Stderr (''Error checking operation status: '' @ e)],
                    Inl (ServiceError e))"
    and po: "length (filter is_poll evs) = Suc (length ps)"
    and ex: "filter is_extraction evs = []"
    by blast
  have "generate_video w prompt out model neg inp key
          = Some ((started @ evs) @ [Stderr (''Error checking operation status: '' @ e)],
                  Inl (ServiceError e))"
    using generate_video_after_start[OF assms(1), of out] run assms(3) by simp
  moreover have "length (filter is_poll (started @ evs)) = Suc (length ps)"
    using start_generation_started(1)[OF assms(1)] po by simp
  moreover have "filter is_extraction (started @ evs) = []"
    using start_generation_started(3)[OF assms(1)] ex by simp
  ultimately show ?thesis by blast
qed

theorem poll_failure_is_fatal_witness:
  "\<exists>tr. generate_video
           (example_world\<lparr>operations_get :=
              [Inr pending_operation, Inl ''connection reset'', Inr finished_operation]\<rparr>)
           ''a cat'' ''out/v.mp4'' ''veo-3.0-generate-001'' None None None
         = Some (tr @ [Stderr ''Error checking operation status: connection reset''],
                 Inl (ServiceError ''connection reset''))
       \<and> length (filter is_poll tr) = 2
       \<and> filter is_extraction tr = []"
proof -
  let ?w = "example_world\<lparr>operations_get :=
              [Inr pending_operation, Inl ''connection reset'', Inr finished_operation]\<rparr>"
  have pend: "\<not> op_done pending_operation" by (simp add: pending_operation_def)
  have script: "operations_get ?w
      = map Inr [pending_operation] @ Inl ''connection reset'' # [Inr finished_operation]"
    by simp
  have all: "\<forall>p \<in> set [pending_operation]. \<not> op_done p" using pend by simp
  from poll_failure_is_fatal[OF example_start pend script all, of "''out/v.mp4''"]
  show ?thesis by (simp add: numeral_2_eq_2)
qed

section \<open>Credentials\<close>

lemma resolve_api_key_simps:
  "resolve_api_key w None = environ_GEMINI_API_KEY w"
  "resolve_api_key w (Some []) = environ_GEMINI_API_KEY w"
  "k \<noteq> [] \<Longrightarrow> resolve_api_key w (Some k) = Some k"
  by (simp_all add: resolve_api_key_def py_or_def truthy_def)

lemma no_api_key_messages_quiet:
  "filter is_network_call no_api_key_messages = []"
  "ClientInit x \<notin> set no_api_key_messages"
  by (simp_all add: no_api_key_messages_def)

lemma model_responses_no_client: "ClientInit x \<notin> set (model_responses ps)"
  by (induction ps) (simp_all split: option.splits)

lemma extract_and_save_no_client: "ClientInit x \<notin> set (fst (extract_and_save w out resp))"
  by (simp add: extract_and_save_def model_responses_no_client Let_def
      split: list.splits option.splits)

lemma generate_image_client:
  assumes "ClientInit x \<in> set (fst (generate_image w prompt out res inp key))"
  shows "resolve_api_key w key = Some x"
  using assms
  by (auto simp: generate_image_cases build_contents_cases no_api_key_messages_quiet
        extract_and_save_no_client Let_def
      split: option.splits if_splits sum.splits)

lemma save_video_no_client: "ClientInit x \<notin> set (fst (save_video w out operation))"
  by (simp add: save_video_def Let_def split: list.splits option.splits)

lemma download_and_save_no_client:
  "ClientInit x \<notin> set (fst (download_and_save w out operation))"
  by (simp add: download_and_save_def save_video_no_client split: option.splits)

lemma generate_video_client:
  assumes "generate_video w prompt out model neg inp key = Some (tr, r)"
    and "ClientInit x \<in> set tr"
  shows "resolve_api_key w key = Some x"
proof (cases "start_generation w prompt model neg inp key")
  case (Inl ended)
  with assms have "start_generation w prompt model neg inp key = Inl (tr, r)"
    by (simp add: generate_video_def)
  from start_generation_ended_client[OF this assms(2)] show ?thesis .
next
  case (Inr b)
  then obtain started operation where
    start: "start_generation w prompt model neg inp key = Inr (started, operation)"
    by (cases b) auto
  have "\<exists>polls res post. poll_loop (operations_get w) operation 0 = Some (polls, res)
           \<and> tr = started @ polls @ post \<and> ClientInit x \<notin> set post"
  proof (cases "poll_loop (operations_get w) operation 0")
    case None
    with assms(1) generate_video_after_start[OF start, of out] show ?thesis by simp
  next
    case (Some pr)
    obtain polls res where pr: "pr = (polls, res)" by (cases pr)
    show ?thesis
    proof (cases res)
      case (Inl e)
      with Some pr assms(1) generate_video_after_start[OF start, of out]
      have "tr = started @ polls @ []" by simp
      with Some pr show ?thesis by fastforce
    next
      case (Inr operation')
      with Some pr assms(1) generate_video_after_start[OF start, of out]
      have "tr = started @ polls @ fst (download_and_save w out operation')" by simp
      with Some pr download_and_save_no_client[of x w out operation'] show ?thesis by blast
    qed
  qed
  then obtain polls res post where
    polls: "poll_loop (operations_get w) operation 0 = Some (polls, res)"
    and tr: "tr = started @ polls @ post" and post: "ClientInit x \<notin> set post"
    by blast
  from poll_loop_events[OF polls] have "ClientInit x \<notin> set polls" by simp
  with tr post assms(2) have "ClientInit x \<in> set started" by auto
  from start_generation_client[OF start this] show ?thesis .
qed

lemma missing_credential:
  assumes "resolve_api_key w key = None \<or> resolve_api_key w key = Some []"
  shows "generate_image w prompt out res inp key = (no_api_key_messages, Inl MissingCredential)"
    and "generate_video w prompt out model neg inp key
           = Some (no_api_key_messages, Inl MissingCredential)"
  using assms
  by (auto simp: generate_image_def generate_video_def start_generation_def)

text \<open>
  C5 (as the code has it). In either pipeline: when the explicit credential parameter
  is absent and the environment variable is absent, the invocation ends with
  MissingCredential after two lines on stderr and no network call. When the explicit
  parameter is present and not empty, it is the resolved credential; when it is absent,
  the value of the environment variable is. Whenever a client is created, it is created
  with the resolved credential.
\<close>

theorem credential_resolution:
  "(api_key = None \<and> environ_GEMINI_API_KEY w = None \<longrightarrow>
      generate_image w prompt out res inp api_key = (no_api_key_messages, Inl MissingCredential)
    \<and> generate_video w prompt out model neg inp api_key
        = Some (no_api_key_messages, Inl MissingCredential)
    \<and> filter is_network_call no_api_key_messages = [])
   \<and> (\<forall>k. api_key = Some k \<and> k \<noteq> [] \<longrightarrow> resolve_api_key w api_key = Some k)
   \<and> (api_key = None \<longrightarrow> resolve_api_key w api_key = environ_GEMINI_API_KEY w)
   \<and> (\<forall>x. ClientInit x \<in> set (fst (generate_image w prompt out res inp api_key))
          \<longrightarrow> resolve_api_key w api_key = Some x)
   \<and> (\<forall>x tr r. generate_video w prompt out model neg inp api_key = Some (tr, r)
              \<and> ClientInit x \<in> set tr
          \<longrightarrow> resolve_api_key w api_key = Some x)"
proof (intro conjI impI allI)
  assume a: "api_key = None \<and> environ_GEMINI_API_KEY w = None"
  then have none: "resolve_api_key w api_key = None \<or> resolve_api_key w api_key = Some []"
    by (simp add: resolve_api_key_simps)
  from missing_credential(1)[OF none]
  show "generate_image w prompt out res inp api_key = (no_api_key_messages, Inl MissingCredential)" .
  from missing_credential(2)[OF none]
  show "generate_video w prompt out model neg inp api_key
          = Some (no_api_key_messages, Inl MissingCredential)" .
  show "filter is_network_call no_api_key_messages = []"
    by (rule no_api_key_messages_quiet)
next
  fix k assume "api_key = Some k \<and> k \<noteq> []"
  then show "resolve_api_key w api_key = Some k" by (simp add: resolve_api_key_simps)
next
  assume "api_key = None"
  then show "resolve_api_key w api_key = environ_GEMINI_API_KEY w"
    by (simp add: resolve_api_key_simps)
next
  fix x assume "ClientInit x \<in> set (fst (generate_image w prompt out res inp api_key))"
  then show "resolve_api_key w api_key = Some x" by (rule generate_image_client)
next
  fix x tr r
  assume "generate_video w prompt out model neg inp api_key = Some (tr, r)
            \<and> ClientInit x \<in> set tr"
  then show "resolve_api_key w api_key = Some x" using generate_video_client by blast
qed

theorem credential_resolution_witness:
  "generate_image (example_world\<lparr>environ_GEMINI_API_KEY := None\<rparr>)
       ''a cat'' ''out/a.png'' ''1K'' None None
     = (no_api_key_messages, Inl MissingCredential)
   \<and> generate_video (example_world\<lparr>environ_GEMINI_API_KEY := None\<rparr>)
       ''a cat'' ''out/v.mp4'' ''veo-3.0-generate-001'' None None None
     = Some (no_api_key_messages, Inl MissingCredential)
   \<and> resolve_api_key example_world (Some ''arg-key'') = Some ''arg-key''
   \<and> resolve_api_key example_world None = Some ''env-key''
   \<and> ClientInit ''arg-key''
       \<in> set (fst (generate_image example_world ''a cat'' ''out/a.png'' ''1K'' None
                     (Some ''arg-key'')))"
proof -
  have env: "environ_GEMINI_API_KEY (example_world\<lparr>environ_GEMINI_API_KEY := None\<rparr>) = None"
    by simp
  have env': "environ_GEMINI_API_KEY example_world = Some ''env-key''"
    by (simp add: example_world_def)
  have used: "ClientInit ''arg-key''
       \<in> set (fst (generate_image example_world ''a cat'' ''out/a.png'' ''1K'' None
                     (Some ''arg-key'')))"
    by (simp add: generate_image_cases resolve_api_key_simps valid_resolutions_def
        build_contents_cases Let_def split: sum.splits)
  from credential_resolution[of None "example_world\<lparr>environ_GEMINI_API_KEY := None\<rparr>"
         "''a cat''" "''out/a.png''" "''1K''" None "''veo-3.0-generate-001''" None]
       credential_resolution[of "Some ''arg-key''" example_world
         "''a cat''" "''out/a.png''" "''1K''" None "''veo-3.0-generate-001''" None]
       credential_resolution[of None example_world
         "''a cat''" "''out/a.png''" "''1K''" None "''veo-3.0-generate-001''" None]
       env env' used
  show ?thesis
    by (simp add: generate_video_def start_generation_def resolve_api_key_simps)
qed

text \<open>
  The explicit parameter is present and empty, the environment variable holds a key: the
  client is created with the key of the environment, not with the explicit parameter.
\<close>

theorem explicit_credential_counterexample:
  "resolve_api_key example_world (Some []) = Some ''env-key''
   \<and> ClientInit ''env-key''
       \<in> set (fst (generate_image example_world ''a cat'' ''out/a.png'' ''1K'' None (Some [])))
   \<and> ClientInit []
       \<notin> set (fst (generate_image example_world ''a cat'' ''out/a.png'' ''1K'' None (Some [])))"
  by (simp add: generate_image_cases resolve_api_key_simps valid_resolutions_def
      build_contents_cases extract_and_save_def example_world_def text_part_def media_part_def
      Let_def)

text \<open>
  C10. In either pipeline an empty explicit credential behaves exactly as an absent one
  (so the environment variable decides), and an empty environment variable with no
  explicit credential ends the invocation with MissingCredential.
\<close>

theorem empty_credential_is_absent:
  "generate_image w prompt out res inp (Some []) = generate_image w prompt out res inp None
   \<and> generate_video w prompt out model neg inp (Some [])
       = generate_video w prompt out model neg inp None
   \<and> generate_image (w\<lparr>environ_GEMINI_API_KEY := Some []\<rparr>) prompt out res inp None
       = (no_api_key_messages, Inl MissingCredential)
   \<and> generate_video (w\<lparr>environ_GEMINI_API_KEY := Some []\<rparr>) prompt out model neg inp None
       = Some (no_api_key_messages, Inl MissingCredential)"
  by (simp add: generate_image_def generate_video_def start_generation_def
      resolve_api_key_simps)

theorem empty_credential_is_absent_witness:
  "generate_image example_world ''a cat'' ''out/a.png'' ''1K'' None (Some [])
     = generate_image example_world ''a cat'' ''out/a.png'' ''1K'' None None
   \<and> generate_video (example_world\<lparr>environ_GEMINI_API_KEY := Some []\<rparr>)
       ''a cat'' ''out/v.mp4'' ''veo-3.0-generate-001'' None None None
     = Some ([Stderr ''Error: No API key provided.'',
              Stderr ''Set GEMINI_API_KEY environment variable or use --api-key argument.''],
             Inl MissingCredential)"
  using empty_credential_is_absent[where w = example_world and prompt = "''a cat''"
          and out = "''out/a.png''" and res = "''1K''" and inp = None
          and model = "''veo-3.0-generate-001''" and neg = None]
        empty_credential_is_absent[where w = example_world and prompt = "''a cat''"
          and out = "''out/v.mp4''" and res = "''1K''" and inp = None
          and model = "''veo-3.0-generate-001''" and neg = None]
  by (simp add: no_api_key_messages_def)

section \<open>Resolution\<close>

text \<open>
  C6 (as the code has it). For every image-pipeline invocation whose credential
  resolves, a resolution outside the set 1K, 2K, 4K ends the invocation with
  InvalidOption after one line on stderr, and no network call is made.
\<close>

theorem invalid_resolution:
  assumes "resolve_api_key w api_key = Some k" and "k \<noteq> []"
    and "resolution \<notin> {''1K'', ''2K'', ''4K''}"
  shows "generate_image w prompt output_path resolution input_image_path api_key
           = ([Stderr (''Error: Invalid resolution '' @ [CHR 0x27] @ resolution @ [CHR 0x27]
                        @ ''. Must be one of: '' @ repr_valid_resolutions w)],
              Inl InvalidOption)
       \<and> filter is_network_call
           (fst (generate_image w prompt output_path resolution input_image_path api_key)) = []"
  using assms by (simp add: generate_image_cases valid_resolutions_def)

theorem invalid_resolution_witness:
  "generate_image example_world ''a cat'' ''out/a.png'' ''low'' None None
     = ([Stderr (''Error: Invalid resolution '' @ [CHR 0x27] @ ''low'' @ [CHR 0x27]
                  @ ''. Must be one of: {1K, 2K, 4K}'')],
        Inl InvalidOption)
   \<and> filter is_network_call
       (fst (generate_image example_world ''a cat'' ''out/a.png'' ''low'' None None)) = []"
proof -
  have key: "resolve_api_key example_world None = Some ''env-key''"
    by (simp add: resolve_api_key_simps example_world_def)
  have ne: "''env-key'' \<noteq> []" by simp
  have res: "''low'' \<notin> {''1K'', ''2K'', ''4K''}" by simp
  have repr: "repr_valid_resolutions example_world = ''{1K, 2K, 4K}''"
    by (simp add: example_world_def)
  from invalid_resolution[OF key ne res, of "''a cat''" "''out/a.png''" None] repr
  show ?thesis by simp
qed

text \<open>
  The resolution 1K is outside the set low, medium, high, and the invocation succeeds;
  the resolution low is rejected; and without a credential an invocation with a rejected
  resolution ends with MissingCredential, the credential being checked first.
\<close>

theorem resolution_names_counterexample:
  "''1K'' \<notin> {''low'', ''medium'', ''high''}
   \<and> snd (generate_image example_world ''a cat'' ''out/a.png'' ''1K'' None None)
       = Inr ''/work/out/a.png''
   \<and> snd (generate_image example_world ''a cat'' ''out/a.png'' ''1K'' None None)
       \<noteq> Inl InvalidOption
   \<and> snd (generate_image example_world ''a cat'' ''out/a.png'' ''low'' None None)
       = Inl InvalidOption
   \<and> snd (generate_image (example_world\<lparr>environ_GEMINI_API_KEY := None\<rparr>)
            ''a cat'' ''out/a.png'' ''8K'' None None)
       = Inl MissingCredential"
  by (simp add: generate_image_cases resolve_api_key_simps valid_resolutions_def
      build_contents_cases extract_and_save_def example_world_def text_part_def media_part_def
      Let_def)

section \<open>The default MIME type\<close>

text \<open>
  C9 (as the code has it). For the path of an existing reference image whose extension
  the MIME table does not know, each pipeline tags the bytes of the file with its own
  fixed default: the image pipeline with image/png, the video pipeline with image/jpeg.
\<close>

theorem default_mime_type:
  assumes "guess_type w p = None" and "p \<noteq> []" and "files w p = Some d"
  shows "build_contents w prompt (Some p)
           = Inr ([ReadFile p], [Part_from_bytes d ''image/png'', Prompt prompt])
       \<and> load_input_image w (Some p)
           = Inr ([Stdout (''Loading input image: '' @ p), ReadFile p],
                  Some \<lparr>image_bytes = d, image_mime_type = ''image/jpeg''\<rparr>)"
  using assms
  by (simp add: build_contents_cases get_mime_type_def load_input_image_def input_mime_type_def)

theorem default_mime_type_witness:
  "build_contents example_world ''a cat'' (Some ''scan.xyz'')
     = Inr ([ReadFile ''scan.xyz''], [Part_from_bytes [0x01, 0x02] ''image/png'', Prompt ''a cat''])
   \<and> load_input_image example_world (Some ''scan.xyz'')
     = Inr ([Stdout ''Loading input image: scan.xyz'', ReadFile ''scan.xyz''],
            Some \<lparr>image_bytes = [0x01, 0x02], image_mime_type = ''image/jpeg''\<rparr>)"
proof -
  have g: "guess_type example_world ''scan.xyz'' = None" by (simp add: example_world_def)
  have ne: "''scan.xyz'' \<noteq> []" by simp
  have f: "files example_world ''scan.xyz'' = Some [0x01, 0x02]" by (simp add: example_world_def)
  from default_mime_type[OF g ne f, of "''a cat''"] show ?thesis by simp
qed

text \<open>
  The same file with an unknown extension, given to both pipelines: the image request
  carries it as image/png, the video request as image/jpeg.
\<close>

theorem single_default_counterexample:
  "guess_type example_world ''scan.xyz'' = None
   \<and> filter is_network_call
       (fst (generate_image example_world ''a cat'' ''out/a.png'' ''1K'' (Some ''scan.xyz'') None))
     = [Call_generate_content ''gemini-3-pro-image-preview''
          [Part_from_bytes [0x01, 0x02] ''image/png'', Prompt ''a cat'']
          \<lparr>response_modalities = [''IMAGE''], image_size = ''1K''\<rparr>]
   \<and> start_generation example_world ''a cat'' ''veo-3.0-generate-001'' None
       (Some ''scan.xyz'') None
     = Inr ([ClientInit ''env-key'', Stdout ''Loading input image: scan.xyz'',
             ReadFile ''scan.xyz'',
             Stdout ''Starting video generation with model: veo-3.0-generate-001'',
             Stdout ''Prompt: a cat'',
             Call_generate_videos ''veo-3.0-generate-001'' ''a cat''
               (Some \<lparr>image_bytes = [0x01, 0x02], image_mime_type = ''image/jpeg''\<rparr>) None,
             Stdout ''Generating video (this may take a few minutes)...''],
            pending_operation)
   \<and> ''image/png'' \<noteq> ''image/jpeg''"
  by (simp add: generate_image_cases resolve_api_key_simps valid_resolutions_def
      build_contents_cases get_mime_type_def extract_and_save_def example_world_def
      text_part_def media_part_def start_generation_def load_input_image_def
      input_mime_type_def build_config_def Let_def)

section \<open>Extraction\<close>

lemma first_inline_data_scan:
  "first_inline_data ps = Some b \<longleftrightarrow>
     (\<exists>pre p post. ps = pre @ p # post \<and> (\<forall>q \<in> set pre. inline_data q = None)
        \<and> inline_data p = Some b)"
proof (induction ps)
  case Nil
  show ?case by simp
next
  case (Cons a ps)
  show ?case
  proof (cases "inline_data a")
    case None
    have "(\<exists>pre p post. a # ps = pre @ p # post \<and> (\<forall>q \<in> set pre. inline_data q = None)
             \<and> inline_data p = Some b)
        \<longleftrightarrow> (\<exists>pre p post. ps = pre @ p # post \<and> (\<forall>q \<in> set pre. inline_data q = None)
             \<and> inline_data p = Some b)"
    proof
      assume "\<exists>pre p post. a # ps = pre @ p # post \<and> (\<forall>q \<in> set pre. inline_data q = None)
                \<and> inline_data p = Some b"
      then obtain pre p post where eq: "a # ps = pre @ p # post"
        and pre: "\<forall>q \<in> set pre. inline_data q = None" and p: "inline_data p = Some b"
        by blast
      from eq p None obtain pre' where "pre = a # pre'" by (cases pre) auto
      with eq pre p show "\<exists>pre p post. ps = pre @ p # post
          \<and> (\<forall>q \<in> set pre. inline_data q = None) \<and> inline_data p = Some b"
        by auto
    next
      assume "\<exists>pre p post. ps = pre @ p # post \<and> (\<forall>q \<in> set pre. inline_data q = None)
                \<and> inline_data p = Some b"
      then obtain pre p post where "ps = pre @ p # post"
        and "\<forall>q \<in> set pre. inline_data q = None" and "inline_data p = Some b"
        by blast
      with None have "a # ps = (a # pre) @ p # post
          \<and> (\<forall>q \<in> set (a # pre). inline_data q = None) \<and> inline_data p = Some b"
        by simp
      then show "\<exists>pre p post. a # ps = pre @ p # post
          \<and> (\<forall>q \<in> set pre. inline_data q = None) \<and> inline_data p = Some b"
        by blast
    qed
    with None Cons.IH show ?thesis by simp
  next
    case (Some b')
    have "(\<exists>pre p post. a # ps = pre @ p # post \<and> (\<forall>q \<in> set pre. inline_data q = None)
             \<and> inline_data p = Some b) \<longleftrightarrow> b' = b"
    proof
      assume "\<exists>pre p post. a # ps = pre @ p # post \<and> (\<forall>q \<in> set pre. inline_data q = None)
                \<and> inline_data p = Some b"
      then obtain pre p post where eq: "a # ps = pre @ p # post"
        and pre: "\<forall>q \<in> set pre. inline_data q = None" and p: "inline_data p = Some b"
        by blast
      show "b' = b"
      proof (cases pre)
        case Nil
        with eq p Some show ?thesis by simp
      next
        case (Cons x xs)
        with eq pre Some show ?thesis by simp
      qed
    next
      assume "b' = b"
      with Some have "a # ps = [] @ a # ps \<and> (\<forall>q \<in> set []. inline_data q = None)
          \<and> inline_data a = Some b"
        by simp
      then show "\<exists>pre p post. a # ps = pre @ p # post
          \<and> (\<forall>q \<in> set pre. inline_data q = None) \<and> inline_data p = Some b"
        by blast
    qed
    with Some show ?thesis by simp
  qed
qed

lemma first_inline_data_none:
  "first_inline_data ps = None \<longleftrightarrow> (\<forall>p \<in> set ps. inline_data p = None)"
  by (induction ps) (auto split: option.splits)

lemma model_responses_texts:
  "model_responses ps
     = map (\<lambda>t. Stderr (''Model response: '' @ t)) (filter (\<lambda>t. t \<noteq> []) (List.map_filter part_text ps))"
  by (induction ps) (simp_all split: option.splits)

lemma extract_and_save_media:
  "candidates resp = c # cs \<Longrightarrow> first_inline_data (content_parts c) = Some b \<Longrightarrow>
     extract_and_save w out resp
       = ([MkdirParents (path_parent w out), WriteBytes out (blob_data b),
           Stdout (''Image saved: '' @ path_resolve w out)],
          Inr (path_resolve w out))"
  by (simp add: extract_and_save_def Let_def)

lemma extract_and_save_no_media:
  "candidates resp = c # cs \<Longrightarrow> first_inline_data (content_parts c) = None \<Longrightarrow>
     extract_and_save w out resp
       = (Stderr ''Error: No image was generated in the response.''
            # model_responses (content_parts c),
          Inl NoMediaProduced)"
  by (cases "content_parts c") (simp_all add: extract_and_save_def)

lemma extract_and_save_success:
  assumes "extract_and_save w out resp = (evs, Inr path)"
  shows "path = path_resolve w out
       \<and> (\<exists>b. evs = [MkdirParents (path_parent w out), WriteBytes out b,
                     Stdout (''Image saved: '' @ path)])"
  using assms
  by (auto simp: extract_and_save_def Let_def split: list.splits option.splits)

lemma save_video_success:
  assumes "save_video w out operation = (evs, Inr path)"
  shows "path = path_resolve w out
       \<and> (\<exists>v. evs = [MkdirParents (path_parent w out), Call_files_download v, VideoSave v out,
                     Stdout (''Video saved: '' @ path)])"
  using assms
  by (auto simp: save_video_def Let_def split: list.splits option.splits)

lemma download_and_save_success:
  assumes "download_and_save w out operation = (evs, Inr path)"
  shows "path = path_resolve w out
       \<and> (\<exists>v. evs = [MkdirParents (path_parent w out), Call_files_download v, VideoSave v out,
                     Stdout (''Video saved: '' @ path)])"
  using assms save_video_success[of w out operation evs path]
  by (auto simp: download_and_save_def split: option.splits if_splits)

lemma start_generation_ended:
  "start_generation w prompt model neg inp key = Inl (tr, r) \<Longrightarrow> \<exists>e. r = Inl e"
  by (auto simp: start_generation_def Let_def
      split: option.splits if_splits sum.splits prod.splits)

lemma generate_image_success:
  assumes "generate_image w prompt out res inp key = (tr, Inr path)"
  shows "path = path_resolve w out
       \<and> (\<exists>pre b. tr = pre @ [MkdirParents (path_parent w out), WriteBytes out b,
                              Stdout (''Image saved: '' @ path)]
                 \<and> filter is_extraction pre = [])"
proof -
  from assms obtain k reads contents resp where
    k: "resolve_api_key w key = Some k"
    and bc: "build_contents w prompt inp = Inr (reads, contents)"
    and tr: "tr = (ClientInit k # reads
                     @ [Call_generate_content ''gemini-3-pro-image-preview'' contents
                          \<lparr>response_modalities = [''IMAGE''], image_size = res\<rparr>])
                  @ fst (extract_and_save w out resp)"
    and sn: "snd (extract_and_save w out resp) = Inr path"
    by (auto simp: generate_image_cases Let_def
        split: option.splits if_splits sum.splits prod.splits)
  from bc have reads: "filter is_extraction reads = []"
    by (auto simp: build_contents_cases split: option.splits if_splits)
  from sn have "extract_and_save w out resp = (fst (extract_and_save w out resp), Inr path)"
    by (metis prod.collapse)
  from extract_and_save_success[OF this] tr reads show ?thesis by auto
qed

lemma generate_video_success:
  assumes "generate_video w prompt out model neg inp key = Some (tr, Inr path)"
  shows "path = path_resolve w out
       \<and> (\<exists>pre v. tr = pre @ [MkdirParents (path_parent w out), Call_files_download v,
                              VideoSave v out, Stdout (''Video saved: '' @ path)]
                 \<and> filter is_extraction pre = [])"
proof (cases "start_generation w prompt model neg inp key")
  case (Inl ended)
  obtain t r where "ended = (t, r)" by (cases ended)
  with Inl assms start_generation_ended[of w prompt model neg inp key t r]
  show ?thesis by (auto simp: generate_video_def)
next
  case (Inr b)
  then obtain started operation where
    start: "start_generation w prompt model neg inp key = Inr (started, operation)"
    by (cases b) auto
  from assms generate_video_after_start[OF start, of out]
  obtain polls operation' where
    polls: "poll_loop (operations_get w) operation 0 = Some (polls, Inr operation')"
    and tr: "tr = (started @ polls) @ fst (download_and_save w out operation')"
    and sn: "snd (download_and_save w out operation') = Inr path"
    by (auto split: option.splits sum.splits)
  from sn have "download_and_save w out operation'
      = (fst (download_and_save w out operation'), Inr path)"
    by (metis prod.collapse)
  from download_and_save_success[OF this] tr
    start_generation_started(3)[OF start] poll_loop_events[OF polls, of "[]"]
  show ?thesis by auto
qed

text \<open>
  C8. For every successful invocation of either pipeline, the path returned to the
  caller is the resolved absolute output path, and the events end the same way in both:
  the parent directory of the output path is created (with its missing ancestors, and
  without failing when it exists), then the artifact is written to the output path
  (the bytes of the first media part, or the downloaded video), then the resolved path
  is printed. Nothing is written or created before that.
\<close>

theorem output_path_handling:
  "(generate_image w prompt out res inp key = (tr, Inr path) \<longrightarrow>
      path = path_resolve w out
      \<and> (\<exists>pre b. tr = pre @ [MkdirParents (path_parent w out), WriteBytes out b,
                             Stdout (''Image saved: '' @ path)]
                \<and> filter is_extraction pre = []))
   \<and> (generate_video w prompt out model neg inp key = Some (tr', Inr path') \<longrightarrow>
      path' = path_resolve w out
      \<and> (\<exists>pre v. tr' = pre @ [MkdirParents (path_parent w out), Call_files_download v,
                              VideoSave v out, Stdout (''Video saved: '' @ path')]
                \<and> filter is_extraction pre = []))"
  using generate_image_success[of w prompt out res inp key tr path]
    generate_video_success[of w prompt out model neg inp key tr' path']
  by blast

theorem output_path_handling_witness:
  "(\<exists>pre b. generate_image example_world ''a cat'' ''out/a.png'' ''1K'' None None
              = (pre @ [MkdirParents ''out'', WriteBytes ''out/a.png'' b,
                        Stdout ''Image saved: /work/out/a.png''],
                 Inr ''/work/out/a.png'')
            \<and> filter is_extraction pre = [])
   \<and> (\<exists>pre v. generate_video example_world ''a cat'' ''out/v.mp4'' ''veo-3.0-generate-001''
                None None None
              = Some (pre @ [MkdirParents ''out'', Call_files_download v,
                             VideoSave v ''out/v.mp4'', Stdout ''Video saved: /work/out/v.mp4''],
                      Inr ''/work/out/v.mp4'')
            \<and> filter is_extraction pre = [])"
proof -
  have "snd (generate_image example_world ''a cat'' ''out/a.png'' ''1K'' None None)
      = Inr ''/work/out/a.png''"
    by (simp add: generate_image_cases resolve_api_key_simps valid_resolutions_def
        build_contents_cases extract_and_save_def example_world_def text_part_def
        media_part_def Let_def)
  then obtain tr where img:
    "generate_image example_world ''a cat'' ''out/a.png'' ''1K'' None None
       = (tr, Inr ''/work/out/a.png'')"
    by (metis prod.collapse)
  have "\<exists>tr. generate_video example_world ''a cat'' ''out/v.mp4'' ''veo-3.0-generate-001''
               None None None = Some (tr, Inr ''/work/out/v.mp4'')"
    by (simp add: generate_video_def start_generation_def example_world_def
        resolve_api_key_simps load_input_image_def build_config_def pending_operation_def
        finished_operation_def download_and_save_def save_video_def Let_def)
  then obtain tr' where vid:
    "generate_video example_world ''a cat'' ''out/v.mp4'' ''veo-3.0-generate-001''
       None None None = Some (tr', Inr ''/work/out/v.mp4'')"
    by (rule exE)
  have parent: "path_parent example_world ''out/a.png'' = ''out''"
    "path_parent example_world ''out/v.mp4'' = ''out''"
    by (simp_all add: example_world_def)
  have "\<exists>pre b. tr = pre @ [MkdirParents ''out'', WriteBytes ''out/a.png'' b,
                        Stdout ''Image saved: /work/out/a.png'']
            \<and> filter is_extraction pre = []"
    using output_path_handling[where w = example_world and prompt = "''a cat''"
        and out = "''out/a.png''" and res = "''1K''" and inp = None and key = None
        and tr = tr and path = "''/work/out/a.png''",
        THEN conjunct1, THEN mp, OF img, THEN conjunct2]
    unfolding parent by simp
  then obtain pre b where
    "tr = pre @ [MkdirParents ''out'', WriteBytes ''out/a.png'' b,
                 Stdout ''Image saved: /work/out/a.png'']"
    and "filter is_extraction pre = []"
    by (elim exE conjE)
  with img have left: "\<exists>pre b. generate_image example_world ''a cat'' ''out/a.png'' ''1K'' None None
              = (pre @ [MkdirParents ''out'', WriteBytes ''out/a.png'' b,
                        Stdout ''Image saved: /work/out/a.png''],
                 Inr ''/work/out/a.png'')
            \<and> filter is_extraction pre = []"
    by (intro exI[of _ pre] exI[of _ b]) simp
  have "\<exists>pre v. tr' = pre @ [MkdirParents ''out'', Call_files_download v,
                             VideoSave v ''out/v.mp4'', Stdout ''Video saved: /work/out/v.mp4'']
            \<and> filter is_extraction pre = []"
    using output_path_handling[where w = example_world and prompt = "''a cat''"
        and out = "''out/v.mp4''" and model = "''veo-3.0-generate-001''" and neg = None
        and inp = None and key = None and tr' = tr' and path' = "''/work/out/v.mp4''",
        THEN conjunct2, THEN mp, OF vid, THEN conjunct2]
    unfolding parent by simp
  then obtain pre' v where
    "tr' = pre' @ [MkdirParents ''out'', Call_files_download v,
                   VideoSave v ''out/v.mp4'', Stdout ''Video saved: /work/out/v.mp4'']"
    and "filter is_extraction pre' = []"
    by (elim exE conjE)
  with vid have right: "\<exists>pre v. generate_video example_world ''a cat'' ''out/v.mp4''
                ''veo-3.0-generate-001'' None None None
              = Some (pre @ [MkdirParents ''out'', Call_files_download v,
                             VideoSave v ''out/v.mp4'', Stdout ''Video saved: /work/out/v.mp4''],
                      Inr ''/work/out/v.mp4'')
            \<and> filter is_extraction pre = []"
    by (intro exI[of _ pre'] exI[of _ v]) simp
  from left right show ?thesis by (rule conjI)
qed

text \<open>
  C2, at a response without candidates. Line 130 indexes \<^verbatim>\<open>response.candidates[0]\<close>
  before anything else, so the invocation ends with an uncaught IndexError: neither the
  line "Error: No image was generated in the response." nor the exit of line 145 is
  reached, although the guard of line 141 provides for a response without candidates.
\<close>

theorem no_candidates_index_error:
  "generate_image
     (example_world\<lparr>generate_content := (\<lambda>key model contents config. Inr \<lparr>candidates = []\<rparr>)\<rparr>)
     ''a cat'' ''out/a.png'' ''1K'' None None
   = ([ClientInit ''env-key'',
       Call_generate_content ''gemini-3-pro-image-preview'' [Prompt ''a cat'']
         \<lparr>response_modalities = [''IMAGE''], image_size = ''1K''\<rparr>],
      Inl (Uncaught IndexError))"
  by (simp add: generate_image_cases resolve_api_key_simps valid_resolutions_def
      build_contents_cases extract_and_save_def example_world_def Let_def)

end
